theory Spec2Isabelle
  imports Main "HOL-Library.Word" "HOL-Library.List_Lexorder"
begin

section \<open>Data model\<close>

text \<open>
  A JavaScript string is a sequence of UTF-16 code units. Literals of the source are
  written \<open>js ''...''\<close>.
\<close>

type_synonym jschar = "16 word"
type_synonym jsstring = "jschar list"

definition js :: "string \<Rightarrow> jsstring" where
  "js s = map of_char s"

text \<open>
  \<^verbatim>\<open>interface ImageMetadata\<close> of \<^verbatim>\<open>lib/firebase\<close>. A record read from the collection is
  \<^verbatim>\<open>{ id: doc.id, ...doc.data() } as ImageMetadata\<close>: the cast checks nothing, and documents
  without a \<^verbatim>\<open>position\<close> field exist (the comment in \<^verbatim>\<open>getPaginatedImages\<close> about
  "images without 'position'"), so \<open>position\<close> is optional. A
  \<^verbatim>\<open>QueryDocumentSnapshot\<close> is modelled by the record it yields.
\<close>

record ImageMetadata =
  id' :: jsstring
  url :: jsstring
  fileName :: jsstring
  description :: jsstring
  labels :: "jsstring list"
  createdAt :: jsstring
  position :: "int option"

text \<open>\<^verbatim>\<open>Partial<ImageMetadata>\<close>, the argument of \<^verbatim>\<open>updateDoc\<close>: a key is present or absent.\<close>

record MetadataPatch =
  p_url :: "jsstring option"
  p_fileName :: "jsstring option"
  p_description :: "jsstring option"
  p_labels :: "jsstring list option"
  p_createdAt :: "jsstring option"
  p_position :: "int option"

definition no_patch :: MetadataPatch where
  "no_patch = \<lparr>p_url = None, p_fileName = None, p_description = None, p_labels = None,
                p_createdAt = None, p_position = None\<rparr>"

definition apply_patch :: "MetadataPatch \<Rightarrow> ImageMetadata \<Rightarrow> ImageMetadata" where
  "apply_patch p d =
     d\<lparr>url := (case p_url p of None \<Rightarrow> url d | Some v \<Rightarrow> v),
       fileName := (case p_fileName p of None \<Rightarrow> fileName d | Some v \<Rightarrow> v),
       description := (case p_description p of None \<Rightarrow> description d | Some v \<Rightarrow> v),
       labels := (case p_labels p of None \<Rightarrow> labels d | Some v \<Rightarrow> v),
       createdAt := (case p_createdAt p of None \<Rightarrow> createdAt d | Some v \<Rightarrow> v),
       position := (case p_position p of None \<Rightarrow> position d | Some v \<Rightarrow> Some v)\<rparr>"

text \<open>\<^verbatim>\<open>interface SiteSettings\<close>, the \<^verbatim>\<open>settings/site\<close> document.\<close>

record SiteSettings =
  loginBackgroundUrl :: jsstring
  aboutImage :: jsstring
  aboutText :: jsstring
  updatedAt :: jsstring

section \<open>The remote gateway\<close>

text \<open>The query constraints \<^verbatim>\<open>where\<close>, \<^verbatim>\<open>orderBy\<close>, \<^verbatim>\<open>startAfter\<close> and \<^verbatim>\<open>limit\<close> the code builds.\<close>

datatype orderField = CreatedAt | Position
datatype direction = Asc | Desc

datatype constraint =
    WhereLabelsContains jsstring
  | OrderBy orderField direction
  | StartAfter ImageMetadata
  | Limit int

text \<open>Every call the code makes on the backend SDK; the remote state keeps them in order.\<close>

datatype call =
    GetDocs "constraint list"
  | GetImageDoc jsstring
  | SetImageDoc ImageMetadata
  | UpdateImageDoc jsstring MetadataPatch
  | DeleteImageDoc jsstring
  | GetSettingsDoc
  | SetSettingsDoc
  | UploadBytes jsstring
  | GetDownloadURL jsstring
  | DeleteObject jsstring

fun is_write :: "call \<Rightarrow> bool" where
  "is_write (GetDocs _) = False"
| "is_write (GetImageDoc _) = False"
| "is_write GetSettingsDoc = False"
| "is_write (GetDownloadURL _) = False"
| "is_write _ = True"

text \<open>
  The remote state: whether the module-level \<^verbatim>\<open>db\<close> and \<^verbatim>\<open>storage\<close> handles were
  initialised, the \<^verbatim>\<open>images\<close> collection, the stored blobs (by reference), the
  \<^verbatim>\<open>settings/site\<close> document, and the log of calls made so far.
\<close>

record remote =
  db_ok :: bool
  storage_ok :: bool
  imagesColl :: "ImageMetadata list"
  blobs :: "jsstring list"
  siteDoc :: "SiteSettings option"
  calls :: "call list"

text \<open>
  Whether a call rejects is not decided by the code: a fault oracle, given the remote
  state at the time of the call (its log included) and the call, says so. It stands for
  every way the SDK can reject (network, permission, validation, not found).
\<close>

type_synonym fault = "remote \<Rightarrow> call \<Rightarrow> bool"

definition perform :: "fault \<Rightarrow> call \<Rightarrow> remote \<Rightarrow> bool \<times> remote" where
  "perform f c r = (\<not> f r c, r\<lparr>calls := calls r @ [c]\<rparr>)"

definition no_fault :: fault where
  "no_fault r c = False"

datatype failure =
    NotInitialized
  | FetchFailed
  | UpdateFailed
  | DeleteFailed
  | SettingsFailed
  | Rejected

subsection \<open>Query evaluation\<close>

text \<open>
  Modelled from the spec: the Remote Collection Gateway's query evaluation, which is the
  backend's and not in the repository ("filter by labels contains X, order by creation
  time descending, cursor-based pagination via start after record R, result size limit").
  Documents lacking an ordering field are left out, ties of the ordering fields are broken
  by document id in the direction of the last ordering, and the cursor bounds the result
  strictly.
\<close>

datatype cmp = Before | Same | After

definition compare :: "'a::linorder \<Rightarrow> 'a \<Rightarrow> cmp" where
  "compare a b = (if a < b then Before else if a = b then Same else After)"

fun flip :: "direction \<Rightarrow> cmp \<Rightarrow> cmp" where
  "flip Asc c = c"
| "flip Desc Before = After"
| "flip Desc Same = Same"
| "flip Desc After = Before"

fun cmp_field :: "orderField \<Rightarrow> ImageMetadata \<Rightarrow> ImageMetadata \<Rightarrow> cmp" where
  "cmp_field CreatedAt a b = compare (createdAt a) (createdAt b)"
| "cmp_field Position a b =
     (case (position a, position b) of (Some p, Some q) \<Rightarrow> compare p q | _ \<Rightarrow> Same)"

fun cmp_orders :: "(orderField \<times> direction) list \<Rightarrow> direction \<Rightarrow> ImageMetadata \<Rightarrow> ImageMetadata \<Rightarrow> cmp" where
  "cmp_orders [] d a b = flip d (compare (id' a) (id' b))"
| "cmp_orders ((f, d) # os) _ a b =
     (case flip d (cmp_field f a b) of Same \<Rightarrow> cmp_orders os d a b | c \<Rightarrow> c)"

fun orders :: "constraint list \<Rightarrow> (orderField \<times> direction) list" where
  "orders [] = []"
| "orders (OrderBy f d # cs) = (f, d) # orders cs"
| "orders (_ # cs) = orders cs"

fun satisfies :: "constraint \<Rightarrow> ImageMetadata \<Rightarrow> bool" where
  "satisfies (WhereLabelsContains v) x = (v \<in> set (labels x))"
| "satisfies (OrderBy Position _) x = (position x \<noteq> None)"
| "satisfies (OrderBy CreatedAt _) x = True"
| "satisfies (StartAfter _) x = True"
| "satisfies (Limit _) x = True"

fun insort_by :: "('a \<Rightarrow> 'a \<Rightarrow> bool) \<Rightarrow> 'a \<Rightarrow> 'a list \<Rightarrow> 'a list" where
  "insort_by le x [] = [x]"
| "insort_by le x (y # ys) = (if le x y then x # y # ys else y # insort_by le x ys)"

definition sort_by :: "('a \<Rightarrow> 'a \<Rightarrow> bool) \<Rightarrow> 'a list \<Rightarrow> 'a list" where
  "sort_by le xs = foldr (insort_by le) xs []"

fun bound :: "(orderField \<times> direction) list \<Rightarrow> constraint list \<Rightarrow> ImageMetadata list \<Rightarrow> ImageMetadata list" where
  "bound os [] xs = xs"
| "bound os (StartAfter c # cs) xs = bound os cs (filter (\<lambda>x. cmp_orders os Asc c x = Before) xs)"
| "bound os (Limit n # cs) xs = bound os cs (take (nat n) xs)"
| "bound os (_ # cs) xs = bound os cs xs"

definition runQuery :: "constraint list \<Rightarrow> ImageMetadata list \<Rightarrow> ImageMetadata list" where
  "runQuery cs coll =
     bound (orders cs) cs
       (sort_by (\<lambda>a b. cmp_orders (orders cs) Asc a b \<noteq> After)
          (filter (\<lambda>x. \<forall>c \<in> set cs. satisfies c x) coll))"

section \<open>\<^verbatim>\<open>lib/firebase\<close>: paged fetch\<close>

record PaginatedImagesResult =
  page_images :: "ImageMetadata list"
  page_lastVisible :: "ImageMetadata option"
  page_hasMore :: bool

text \<open>
  \<^verbatim>\<open>if (category)\<close> is a truthiness test: \<^verbatim>\<open>null\<close> and the empty string add no filter.
  The SDK's \<^verbatim>\<open>limit(pageSize)\<close> accepts a positive number only: for another one it throws
  while the constraints are built, inside the \<^verbatim>\<open>try\<close> and before any call is made.
\<close>

definition query_constraints :: "int \<Rightarrow> ImageMetadata option \<Rightarrow> jsstring option \<Rightarrow> constraint list" where
  "query_constraints pageSize lastVisible category =
     (case category of None \<Rightarrow> [] | Some c \<Rightarrow> (if c = [] then [] else [WhereLabelsContains c]))
     @ [OrderBy CreatedAt Desc]
     @ (case lastVisible of None \<Rightarrow> [] | Some d \<Rightarrow> [StartAfter d])
     @ [Limit pageSize]"

definition getPaginatedImages ::
  "fault \<Rightarrow> int \<Rightarrow> ImageMetadata option \<Rightarrow> jsstring option \<Rightarrow> remote
     \<Rightarrow> (failure + PaginatedImagesResult) \<times> remote" where
  "getPaginatedImages f pageSize lastVisible category r =
     (if \<not> db_ok r then (Inl NotInitialized, r)
      else if pageSize \<le> 0 then (Inl FetchFailed, r)
      else
        let cs = query_constraints pageSize lastVisible category;
            (ok, r') = perform f (GetDocs cs) r
        in if \<not> ok then (Inl FetchFailed, r')
           else
             let docs = runQuery cs (imagesColl r');
                 newLastVisible = (if length docs > 0 then Some (docs ! (length docs - 1)) else None);
                 hasMore = (int (length docs) = pageSize)
             in (Inr \<lparr>page_images = docs, page_lastVisible = newLastVisible, page_hasMore = hasMore\<rparr>, r'))"

section \<open>The gallery controller: label parsing\<close>

text \<open>\<^verbatim>\<open>String.prototype.split(',')\<close>: the pieces between commas; the empty string gives one empty piece.\<close>

definition comma :: jschar where
  "comma = 44"

fun split_on :: "'a \<Rightarrow> 'a list \<Rightarrow> 'a list list" where
  "split_on sep [] = [[]]"
| "split_on sep (c # cs) =
     (if c = sep then [] # split_on sep cs
      else (case split_on sep cs of [] \<Rightarrow> [[c]] | p # ps \<Rightarrow> (c # p) # ps))"

text \<open>
  \<^verbatim>\<open>String.prototype.trim\<close> removes leading and trailing WhiteSpace and LineTerminator code
  points: TAB, LF, VT, FF, CR, SP, NBSP, ZWNBSP, LS, PS and the category Zs.
\<close>

definition isWhiteSpace :: "jschar \<Rightarrow> bool" where
  "isWhiteSpace c \<longleftrightarrow>
     c \<in> {0x0009, 0x000A, 0x000B, 0x000C, 0x000D, 0x0020, 0x00A0, 0x1680,
          0x2000, 0x2001, 0x2002, 0x2003, 0x2004, 0x2005, 0x2006, 0x2007, 0x2008, 0x2009, 0x200A,
          0x2028, 0x2029, 0x202F, 0x205F, 0x3000, 0xFEFF}"

definition trim :: "jsstring \<Rightarrow> jsstring" where
  "trim s = rev (dropWhile isWhiteSpace (rev (dropWhile isWhiteSpace s)))"

text \<open>\<^verbatim>\<open>labels.split(',').map(label => label.trim()).filter(Boolean)\<close>: a string is falsy iff empty.\<close>

definition parse_labels :: "jsstring \<Rightarrow> jsstring list" where
  "parse_labels labels_in = filter (\<lambda>l. l \<noteq> []) (map trim (split_on comma labels_in))"

text \<open>\<^verbatim>\<open>Array.prototype.join\<close>, to say what \<open>split_on\<close> computes: the pieces put back together.\<close>

fun join :: "'a \<Rightarrow> 'a list list \<Rightarrow> 'a list" where
  "join sep [] = []"
| "join sep [p] = p"
| "join sep (p # q # ps) = p @ sep # join sep (q # ps)"


section \<open>\<^verbatim>\<open>lib/firebase\<close>: point operations\<close>

text \<open>
  The SDK's point operations on the remote state. Each logs its call and asks the oracle;
  a call that does not reject has its effect on the stored data.
\<close>

definition getDoc :: "fault \<Rightarrow> jsstring \<Rightarrow> remote \<Rightarrow> (failure + ImageMetadata option) \<times> remote" where
  "getDoc f i r =
     (case perform f (GetImageDoc i) r of
        (ok, r') \<Rightarrow> if ok then (Inr (find (\<lambda>d. id' d = i) (imagesColl r')), r') else (Inl Rejected, r'))"

definition setDoc :: "fault \<Rightarrow> ImageMetadata \<Rightarrow> remote \<Rightarrow> (failure + unit) \<times> remote" where
  "setDoc f d r =
     (case perform f (SetImageDoc d) r of
        (ok, r') \<Rightarrow>
          if ok then (Inr (), r'\<lparr>imagesColl := filter (\<lambda>x. id' x \<noteq> id' d) (imagesColl r') @ [d]\<rparr>)
          else (Inl Rejected, r'))"

definition updateDoc :: "fault \<Rightarrow> jsstring \<Rightarrow> MetadataPatch \<Rightarrow> remote \<Rightarrow> (failure + unit) \<times> remote" where
  "updateDoc f i p r =
     (case perform f (UpdateImageDoc i p) r of
        (ok, r') \<Rightarrow>
          if ok then (Inr (), r'\<lparr>imagesColl := map (\<lambda>d. if id' d = i then apply_patch p d else d) (imagesColl r')\<rparr>)
          else (Inl Rejected, r'))"

definition deleteDoc :: "fault \<Rightarrow> jsstring \<Rightarrow> remote \<Rightarrow> (failure + unit) \<times> remote" where
  "deleteDoc f i r =
     (case perform f (DeleteImageDoc i) r of
        (ok, r') \<Rightarrow>
          if ok then (Inr (), r'\<lparr>imagesColl := filter (\<lambda>d. id' d \<noteq> i) (imagesColl r')\<rparr>)
          else (Inl Rejected, r'))"

definition deleteObject :: "fault \<Rightarrow> jsstring \<Rightarrow> remote \<Rightarrow> (failure + unit) \<times> remote" where
  "deleteObject f u r =
     (case perform f (DeleteObject u) r of
        (ok, r') \<Rightarrow>
          if ok then (Inr (), r'\<lparr>blobs := removeAll u (blobs r')\<rparr>)
          else (Inl Rejected, r'))"

definition updateImageMetadata :: "fault \<Rightarrow> jsstring \<Rightarrow> MetadataPatch \<Rightarrow> remote \<Rightarrow> (failure + unit) \<times> remote" where
  "updateImageMetadata f imageId metadata r =
     (if \<not> db_ok r then (Inl NotInitialized, r)
      else case updateDoc f imageId metadata r of
             (Inl e, r') \<Rightarrow> (Inl UpdateFailed, r')
           | (Inr u, r') \<Rightarrow> (Inr (), r'))"

text \<open>
  The body of the loop of \<^verbatim>\<open>deleteImages\<close>: read the document, \<^verbatim>\<open>continue\<close> when it does
  not exist, else delete its blob and then the document. \<open>Inl\<close> is a rejected call.
\<close>

definition deleteImage_step :: "fault \<Rightarrow> jsstring \<Rightarrow> remote \<Rightarrow> (failure + unit) \<times> remote" where
  "deleteImage_step f imageId r =
     (case getDoc f imageId r of
        (Inl e, r1) \<Rightarrow> (Inl e, r1)
      | (Inr None, r1) \<Rightarrow> (Inr (), r1)
      | (Inr (Some imageData), r1) \<Rightarrow>
          (case deleteObject f (url imageData) r1 of
             (Inl e, r2) \<Rightarrow> (Inl e, r2)
           | (Inr u, r2) \<Rightarrow> deleteDoc f imageId r2))"

fun deleteImages_loop :: "fault \<Rightarrow> jsstring list \<Rightarrow> remote \<Rightarrow> (failure + unit) \<times> remote" where
  "deleteImages_loop f [] r = (Inr (), r)"
| "deleteImages_loop f (imageId # imageIds) r =
     (case deleteImage_step f imageId r of
        (Inl e, r') \<Rightarrow> (Inl e, r')
      | (Inr u, r') \<Rightarrow> deleteImages_loop f imageIds r')"

definition deleteImages :: "fault \<Rightarrow> jsstring list \<Rightarrow> remote \<Rightarrow> (failure + unit) \<times> remote" where
  "deleteImages f imageIds r =
     (if \<not> db_ok r \<or> \<not> storage_ok r then (Inl NotInitialized, r)
      else case deleteImages_loop f imageIds r of
             (Inl e, r') \<Rightarrow> (Inl DeleteFailed, r')
           | (Inr u, r') \<Rightarrow> (Inr (), r'))"

text \<open>
  \<^verbatim>\<open>updateSiteSettings\<close>, for the one key its caller passes. \<open>now1\<close> and \<open>now2\<close> are the
  two readings of \<^verbatim>\<open>new Date().toISOString()\<close>.
\<close>

definition defaultBackground :: jsstring where
  "defaultBackground = js ''https://images.unsplash.com/photo-1452421822248-d4c2b47f0c81''"

definition updateSiteSettings ::
  "fault \<Rightarrow> jsstring \<Rightarrow> jsstring \<Rightarrow> jsstring \<Rightarrow> remote \<Rightarrow> (failure + unit) \<times> remote" where
  "updateSiteSettings f now1 now2 newBackground r =
     (if \<not> db_ok r then (Inl NotInitialized, r)
      else case perform f GetSettingsDoc r of
        (ok1, r1) \<Rightarrow>
          if \<not> ok1 then (Inl SettingsFailed, r1)
          else
            (case (case siteDoc r1 of
                     Some s \<Rightarrow> (True, r1)
                   | None \<Rightarrow>
                       (case perform f SetSettingsDoc r1 of
                          (ok2, r2) \<Rightarrow>
                            if ok2 then
                              (True, r2\<lparr>siteDoc := Some \<lparr>loginBackgroundUrl = defaultBackground,
                                  aboutImage = [], aboutText = [], updatedAt = now1\<rparr>\<rparr>)
                            else (False, r2))) of
               (ok2, r2) \<Rightarrow>
                 if \<not> ok2 then (Inl SettingsFailed, r2)
                 else
                   (case perform f SetSettingsDoc r2 of
                      (ok3, r3) \<Rightarrow>
                        if \<not> ok3 then (Inl SettingsFailed, r3)
                        else
                          (Inr (), r3\<lparr>siteDoc :=
                             Some (case siteDoc r3 of
                                     Some s \<Rightarrow> s\<lparr>loginBackgroundUrl := newBackground, updatedAt := now2\<rparr>
                                   | None \<Rightarrow> \<lparr>loginBackgroundUrl = newBackground, aboutImage = [],
                                        aboutText = [], updatedAt = now2\<rparr>)\<rparr>))))"

section \<open>\<^verbatim>\<open>lib/firebase\<close>: upload\<close>

text \<open>
  The calls of \<^verbatim>\<open>onProgress\<close>. \<open>Running b t\<close> is a \<^verbatim>\<open>state_changed\<close> snapshot with
  \<^verbatim>\<open>bytesTransferred = b\<close> and \<^verbatim>\<open>totalBytes = t\<close> (the source reports
  \<^verbatim>\<open>(b / t) * 100\<close>), \<open>UploadError\<close> is \<^verbatim>\<open>{progress: 0, status: 'error'}\<close> and
  \<open>UploadSuccess\<close> is \<^verbatim>\<open>{progress: 100, status: 'success'}\<close>.
\<close>

datatype ImageUploadProgress = Running nat nat | UploadError | UploadSuccess

text \<open>
  What the environment supplies to one upload: the file's name, \<^verbatim>\<open>Date.now()\<close> as
  printed in the storage path, the snapshots the task emits, the download URL the
  backend resolves, \<^verbatim>\<open>new Date().toISOString()\<close>, and the id of the fresh document
  reference \<^verbatim>\<open>doc(collection(db, 'images'))\<close>. The outer \<^verbatim>\<open>try\<close> of the source only
  catches a synchronous throw of \<^verbatim>\<open>ref\<close> or \<^verbatim>\<open>uploadBytesResumable\<close>, which build local
  objects and make no call; every rejection of the task goes through \<^verbatim>\<open>reject\<close>.
\<close>

record upload_env =
  file_name :: jsstring
  date_now :: jsstring
  snapshots :: "(nat \<times> nat) list"
  downloadURL :: jsstring
  iso_now :: jsstring
  fresh_id :: jsstring

definition uploadImage ::
  "fault \<Rightarrow> upload_env \<Rightarrow> remote \<Rightarrow> (failure + ImageMetadata) \<times> ImageUploadProgress list \<times> remote" where
  "uploadImage f e r =
     (if \<not> storage_ok r \<or> \<not> db_ok r then (Inl NotInitialized, [], r)
      else
        let path = js ''images/'' @ date_now e @ js ''-'' @ file_name e;
            running = map (\<lambda>(b, t). Running b t) (snapshots e)
        in case perform f (UploadBytes path) r of
          (ok1, r1) \<Rightarrow>
            if \<not> ok1 then (Inl Rejected, running @ [UploadError], r1)
            else
              (case perform f (GetDownloadURL path) (r1\<lparr>blobs := blobs r1 @ [downloadURL e]\<rparr>) of
                 (ok2, r2) \<Rightarrow>
                   if \<not> ok2 then (Inl Rejected, running, r2)
                   else
                     let imageData = \<lparr>id' = fresh_id e, url = downloadURL e, fileName = file_name e,
                                      description = [], labels = [], createdAt = iso_now e,
                                      position = Some 0\<rparr>
                     in (case setDoc f imageData r2 of
                           (Inl err, r3) \<Rightarrow> (Inl Rejected, running, r3)
                         | (Inr u, r3) \<Rightarrow> (Inr imageData, running @ [UploadSuccess], r3))))"


section \<open>The gallery controller\<close>

text \<open>
  The component's state (its \<^verbatim>\<open>useState\<close> cells) and what it shows outside them: the
  messages the component passes to \<^verbatim>\<open>alert\<close> and \<^verbatim>\<open>console.error\<close> (what
  \<^verbatim>\<open>lib/firebase\<close> logs itself is not recorded), and the number of calls of
  \<^verbatim>\<open>window.location.reload()\<close>. \<open>selectedImages\<close> is a JavaScript \<^verbatim>\<open>Set\<close>: its elements
  in insertion order.
\<close>

record gallery =
  images :: "ImageMetadata list"
  loading :: bool
  loadingMore :: bool
  error :: "string option"
  isAdmin :: bool
  editingImage :: "jsstring option"
  selectedImages :: "jsstring list"
  isSelectionMode :: bool
  selectedCategory :: "jsstring option"
  categories :: "jsstring list"
  lastVisible :: "ImageMetadata option"
  hasMore :: bool
  alerts :: "string list"
  console :: "string list"
  reloads :: nat

definition initial_gallery :: gallery where
  "initial_gallery =
     \<lparr>images = [], loading = True, loadingMore = False, error = None, isAdmin = False,
      editingImage = None, selectedImages = [], isSelectionMode = False,
      selectedCategory = None, categories = [], lastVisible = None, hasMore = True,
      alerts = [], console = [], reloads = 0\<rparr>"

definition PAGE_SIZE :: int where
  "PAGE_SIZE = 12"

text \<open>\<^verbatim>\<open>Array.from(new Set(xs))\<close>: the first occurrence of each element, in order.\<close>

definition set_add :: "'a list \<Rightarrow> 'a \<Rightarrow> 'a list" where
  "set_add s x = (if x \<in> set s then s else s @ [x])"

definition from_set :: "'a list \<Rightarrow> 'a list" where
  "from_set xs = foldl set_add [] xs"

definition all_labels :: "ImageMetadata list \<Rightarrow> jsstring list" where
  "all_labels imgs = foldl (\<lambda>acc img. acc @ labels img) [] imgs"

definition updateCategories :: "ImageMetadata list \<Rightarrow> gallery \<Rightarrow> gallery" where
  "updateCategories loadedImages g = g\<lparr>categories := from_set (all_labels loadedImages)\<rparr>"

definition loadInitialImages :: "fault \<Rightarrow> gallery \<times> remote \<Rightarrow> gallery \<times> remote" where
  "loadInitialImages f = (\<lambda>(g0, r).
     let g = g0\<lparr>loading := True\<rparr>
     in case getPaginatedImages f PAGE_SIZE None (selectedCategory g) r of
          (Inr result, r') \<Rightarrow>
            ((updateCategories (page_images result)
               (g\<lparr>images := page_images result, lastVisible := page_lastVisible result,
                  hasMore := page_hasMore result, error := None\<rparr>))\<lparr>loading := False\<rparr>, r')
        | (Inl err, r') \<Rightarrow>
            (g\<lparr>console := console g @ [''Error loading images:''],
               error := Some ''Failed to load images. Please try again later.'',
               loading := False\<rparr>, r'))"

definition handleLoadMore :: "fault \<Rightarrow> gallery \<times> remote \<Rightarrow> gallery \<times> remote" where
  "handleLoadMore f = (\<lambda>(g0, r).
     if \<not> hasMore g0 \<or> loadingMore g0 then (g0, r)
     else
       let g = g0\<lparr>loadingMore := True\<rparr>
       in case getPaginatedImages f PAGE_SIZE (lastVisible g) (selectedCategory g) r of
            (Inr result, r') \<Rightarrow>
              (g\<lparr>images := images g @ page_images result, lastVisible := page_lastVisible result,
                 hasMore := page_hasMore result,
                 categories := from_set (categories g @ all_labels (page_images result)),
                 loadingMore := False\<rparr>, r')
          | (Inl err, r') \<Rightarrow>
              (g\<lparr>console := console g @ [''Error loading more images:''], loadingMore := False\<rparr>, r'))"

text \<open>
  \<^verbatim>\<open>const [removed] = a.splice(start, 1)\<close> for a non-negative index: the element taken out
  (\<^verbatim>\<open>undefined\<close> past the end) and what stays; \<^verbatim>\<open>a.splice(start, 0, x)\<close> inserts at
  \<^verbatim>\<open>min(start, a.length)\<close>.
\<close>

definition splice_out :: "nat \<Rightarrow> 'a list \<Rightarrow> 'a option \<times> 'a list" where
  "splice_out start a =
     (if start < length a then (Some (a ! start), take start a @ drop (Suc start) a) else (None, a))"

definition splice_in :: "nat \<Rightarrow> 'a \<Rightarrow> 'a list \<Rightarrow> 'a list" where
  "splice_in start x a = take start a @ [x] @ drop start a"

definition renumber :: "ImageMetadata list \<Rightarrow> ImageMetadata list" where
  "renumber reorderedImages =
     map (\<lambda>(img, index). img\<lparr>position := Some (int index)\<rparr>)
       (zip reorderedImages [0..<length reorderedImages])"

text \<open>
  \<^verbatim>\<open>updatedImages.map(image => updateDoc(...))\<close> followed by \<^verbatim>\<open>await Promise.all(updates)\<close>:
  every write is issued, whether or not another one rejects; the result is whether all
  were fulfilled.
\<close>

fun write_positions :: "fault \<Rightarrow> ImageMetadata list \<Rightarrow> remote \<Rightarrow> bool \<times> remote" where
  "write_positions f [] r = (True, r)"
| "write_positions f (img # rest) r =
     (case updateDoc f (id' img) (no_patch\<lparr>p_position := position img\<rparr>) r of
        (res, r') \<Rightarrow>
          (case write_positions f rest r' of
             (ok, r'') \<Rightarrow> ((case res of Inl e \<Rightarrow> False | Inr u \<Rightarrow> ok), r'')))"

text \<open>
  \<^verbatim>\<open>handleDragEnd(result)\<close> with \<^verbatim>\<open>result.source.index = source\<close> and
  \<^verbatim>\<open>result.destination\<close> either absent (\<open>None\<close>) or \<^verbatim>\<open>{index: d}\<close>. The drag library takes
  \<open>source\<close> from a rendered item, so it is an index of \<open>images\<close>; for a source past the end
  the JavaScript would insert \<^verbatim>\<open>undefined\<close> into the list, which the model does not
  represent: the result is \<open>None\<close> there. With \<^verbatim>\<open>db\<close> not initialised, \<^verbatim>\<open>doc(db, ...)\<close>
  throws inside the \<^verbatim>\<open>try\<close> at the first record, before any call.
\<close>

definition handleDragEnd ::
  "fault \<Rightarrow> nat \<Rightarrow> nat option \<Rightarrow> gallery \<times> remote \<Rightarrow> (gallery \<times> remote) option" where
  "handleDragEnd f source destination = (\<lambda>(g, r).
     case destination of
       None \<Rightarrow> Some (g, r)
     | Some dest \<Rightarrow>
         if \<not> isAdmin g then Some (g, r)
         else
           (case splice_out source (images g) of
              (None, rest) \<Rightarrow> None
            | (Some removed, rest) \<Rightarrow>
                let updatedImages = renumber (splice_in dest removed rest);
                    g' = g\<lparr>images := updatedImages\<rparr>;
                    failed = (\<lambda>g. g\<lparr>console := console g @ [''Failed to update image positions:''],
                                    reloads := Suc (reloads g)\<rparr>)
                in if \<not> db_ok r \<and> updatedImages \<noteq> [] then Some (failed g', r)
                   else
                     (case write_positions f updatedImages r of
                        (ok, r') \<Rightarrow> Some (if ok then g' else failed g', r'))))"

definition handleUpdate ::
  "fault \<Rightarrow> jsstring \<Rightarrow> jsstring \<Rightarrow> jsstring \<Rightarrow> gallery \<times> remote \<Rightarrow> gallery \<times> remote" where
  "handleUpdate f imageId description_in labels_in = (\<lambda>(g, r).
     let updatedLabels = parse_labels labels_in
     in case updateImageMetadata f imageId
               (no_patch\<lparr>p_description := Some description_in, p_labels := Some updatedLabels\<rparr>) r of
          (Inr u, r') \<Rightarrow>
            (g\<lparr>images := map (\<lambda>img. if id' img = imageId
                                     then img\<lparr>description := description_in, labels := updatedLabels\<rparr>
                                     else img) (images g),
               editingImage := None\<rparr>, r')
        | (Inl err, r') \<Rightarrow>
            (g\<lparr>console := console g @ [''Failed to update image:''],
               alerts := alerts g @ [''Failed to update image. Please try again.'']\<rparr>, r'))"

definition handleSetAsBackground ::
  "fault \<Rightarrow> jsstring \<Rightarrow> jsstring \<Rightarrow> jsstring \<Rightarrow> gallery \<times> remote \<Rightarrow> gallery \<times> remote" where
  "handleSetAsBackground f now1 now2 imageUrl = (\<lambda>(g, r).
     case updateSiteSettings f now1 now2 imageUrl r of
       (Inr u, r') \<Rightarrow> (g\<lparr>alerts := alerts g @ [''Login background updated successfully'']\<rparr>, r')
     | (Inl err, r') \<Rightarrow>
         (g\<lparr>console := console g @ [''Failed to update background:''],
            alerts := alerts g @ [''Failed to update background. Please try again.'']\<rparr>, r'))"

text \<open>\<open>confirmed\<close> is the user's answer to \<^verbatim>\<open>confirm(...)\<close>.\<close>

definition handleDelete :: "fault \<Rightarrow> bool \<Rightarrow> jsstring \<Rightarrow> gallery \<times> remote \<Rightarrow> gallery \<times> remote" where
  "handleDelete f confirmed imageId = (\<lambda>(g, r).
     if \<not> confirmed then (g, r)
     else case deleteImages f [imageId] r of
            (Inr u, r') \<Rightarrow> (g\<lparr>images := filter (\<lambda>img. id' img \<noteq> imageId) (images g)\<rparr>, r')
          | (Inl err, r') \<Rightarrow>
              (g\<lparr>console := console g @ [''Failed to delete image:''],
                 alerts := alerts g @ [''Failed to delete image. Please try again.'']\<rparr>, r'))"

definition handleBulkDelete :: "fault \<Rightarrow> bool \<Rightarrow> gallery \<times> remote \<Rightarrow> gallery \<times> remote" where
  "handleBulkDelete f confirmed = (\<lambda>(g, r).
     if length (selectedImages g) = 0 then (g, r)
     else if \<not> confirmed then (g, r)
     else case deleteImages f (selectedImages g) r of
            (Inr u, r') \<Rightarrow>
              (g\<lparr>images := filter (\<lambda>img. id' img \<notin> set (selectedImages g)) (images g),
                 selectedImages := [], isSelectionMode := False\<rparr>, r')
          | (Inl err, r') \<Rightarrow>
              (g\<lparr>console := console g @ [''Failed to delete images:''],
                 alerts := alerts g @ [''Failed to delete images. Please try again.'']\<rparr>, r'))"

definition toggleImageSelection :: "jsstring \<Rightarrow> gallery \<Rightarrow> gallery" where
  "toggleImageSelection imageId g =
     (if \<not> isAdmin g then g
      else if imageId \<in> set (selectedImages g) then
        (let newSelection = removeAll imageId (selectedImages g)
         in g\<lparr>isSelectionMode := (length newSelection \<noteq> 0), selectedImages := newSelection\<rparr>)
      else g\<lparr>isSelectionMode := True, selectedImages := selectedImages g @ [imageId]\<rparr>)"


section \<open>Concrete states\<close>

text \<open>Small remote and view states on which the theorems below are run.\<close>

definition mk_image :: "string \<Rightarrow> string \<Rightarrow> int option \<Rightarrow> ImageMetadata" where
  "mk_image i t p = \<lparr>id' = js i, url = js ''u-'' @ js i, fileName = js i, description = [], labels = [],
                    createdAt = js t, position = p\<rparr>"

definition mk_remote :: "ImageMetadata list \<Rightarrow> remote" where
  "mk_remote ds = \<lparr>db_ok = True, storage_ok = True, imagesColl = ds, blobs = map url ds,
                   siteDoc = None, calls = []\<rparr>"

definition mk_gallery :: "bool \<Rightarrow> ImageMetadata list \<Rightarrow> gallery" where
  "mk_gallery adm xs = initial_gallery\<lparr>images := xs, loading := False, isAdmin := adm\<rparr>"

definition mk_upload :: "string \<Rightarrow> upload_env" where
  "mk_upload i = \<lparr>file_name = js i @ js ''.jpg'', date_now = js ''1700000000000'', snapshots = [(1, 2), (2, 2)],
                  downloadURL = js ''u-'' @ js i, iso_now = js ''2024-01-01T00:00:00.000Z'', fresh_id = js i\<rparr>"

text \<open>The oracle that rejects exactly one call.\<close>

definition fail_on :: "call \<Rightarrow> fault" where
  "fail_on c r c' = (c' = c)"

section \<open>Reorder by index\<close>

text \<open>
  Where the record at index \<open>j\<close> of the reordered sequence comes from, in the words of the
  specification: the dragged record lands at \<open>dst\<close>, the records between the two indices
  shift by one towards \<open>src\<close>, the others stay.
\<close>

definition moved_from :: "nat \<Rightarrow> nat \<Rightarrow> nat \<Rightarrow> nat" where
  "moved_from src dst j =
     (if j = dst then src
      else if src \<le> j \<and> j < dst then j + 1
      else if dst < j \<and> j \<le> src then j - 1
      else j)"

text \<open>A record without its position, to compare records up to renumbering.\<close>

definition unpositioned :: "ImageMetadata \<Rightarrow> ImageMetadata" where
  "unpositioned d = d\<lparr>position := None\<rparr>"

text \<open>The writes one reorder issues: one per record of the renumbered list, in order.\<close>

definition position_writes :: "ImageMetadata list \<Rightarrow> call list" where
  "position_writes xs = map (\<lambda>d. UpdateImageDoc (id' d) (no_patch\<lparr>p_position := position d\<rparr>)) xs"

section \<open>The presentation layer\<close>

text \<open>
  The controls the component's JSX renders, and when. While \<open>loading\<close> only a spinner is
  rendered; with an \<open>error\<close> only the message and the Retry button; with no image only a
  notice. Otherwise each card carries the drag handle (\<^verbatim>\<open>isDragDisabled={!isAdmin}\<close>), the
  selecting click (attached only \<^verbatim>\<open>isAdmin ? {...} : {}\<close>), the contact button
  (\<^verbatim>\<open>!isAdmin &&\<close>), the background, edit and delete buttons (\<^verbatim>\<open>isAdmin &&\<close>) and, for the
  card with \<^verbatim>\<open>editingImage === image.id\<close>, Cancel and Save. The handlers are local to the
  component: these controls are their only callers.
\<close>

datatype control =
    RetryButton
  | BulkDeleteButton
  | DragHandle nat
  | ImageClick jsstring
  | ContactButton jsstring
  | SetBackgroundButton jsstring
  | EditButton jsstring
  | DeleteButton jsstring
  | CancelButton jsstring
  | SaveButton jsstring
  | LoadMoreButton

definition gallery_shown :: "gallery \<Rightarrow> bool" where
  "gallery_shown g \<longleftrightarrow> \<not> loading g \<and> error g = None \<and> length (images g) \<noteq> 0"

fun rendered :: "gallery \<Rightarrow> control \<Rightarrow> bool" where
  "rendered g RetryButton = (\<not> loading g \<and> error g \<noteq> None)"
| "rendered g BulkDeleteButton = (gallery_shown g \<and> isAdmin g \<and> length (selectedImages g) > 0)"
| "rendered g (DragHandle index) = (gallery_shown g \<and> index < length (images g) \<and> isAdmin g)"
| "rendered g (ImageClick i) = (gallery_shown g \<and> i \<in> id' ` set (images g) \<and> isAdmin g)"
| "rendered g (ContactButton i) = (gallery_shown g \<and> i \<in> id' ` set (images g) \<and> \<not> isAdmin g)"
| "rendered g (SetBackgroundButton u) = (gallery_shown g \<and> u \<in> url ` set (images g) \<and> isAdmin g)"
| "rendered g (EditButton i) = (gallery_shown g \<and> i \<in> id' ` set (images g) \<and> isAdmin g)"
| "rendered g (DeleteButton i) = (gallery_shown g \<and> i \<in> id' ` set (images g) \<and> isAdmin g)"
| "rendered g (CancelButton i) = (gallery_shown g \<and> i \<in> id' ` set (images g) \<and> editingImage g = Some i)"
| "rendered g (SaveButton i) = (gallery_shown g \<and> i \<in> id' ` set (images g) \<and> editingImage g = Some i)"
| "rendered g LoadMoreButton = (gallery_shown g \<and> \<not> loadingMore g \<and> hasMore g)"

text \<open>
  What a user can do, with what the environment supplies to the handler: the answer to
  \<^verbatim>\<open>confirm\<close>, the drop result, the contents of the edit form, the clock readings.
\<close>

datatype action =
    Retry
  | BulkDelete bool
  | Drag nat "nat option"
  | ClickImage jsstring
  | Contact jsstring
  | SetBackground jsstring jsstring jsstring
  | Edit jsstring
  | Delete bool jsstring
  | Cancel jsstring
  | Save jsstring jsstring jsstring
  | LoadMore

fun control_of :: "action \<Rightarrow> control" where
  "control_of Retry = RetryButton"
| "control_of (BulkDelete c) = BulkDeleteButton"
| "control_of (Drag s d) = DragHandle s"
| "control_of (ClickImage i) = ImageClick i"
| "control_of (Contact i) = ContactButton i"
| "control_of (SetBackground u n1 n2) = SetBackgroundButton u"
| "control_of (Edit i) = EditButton i"
| "control_of (Delete c i) = DeleteButton i"
| "control_of (Cancel i) = CancelButton i"
| "control_of (Save i d l) = SaveButton i"
| "control_of LoadMore = LoadMoreButton"

text \<open>The operations the specification calls mutating: reorder, metadata update, deletion, background.\<close>

fun mutating :: "action \<Rightarrow> bool" where
  "mutating (BulkDelete c) = True"
| "mutating (Drag s d) = True"
| "mutating (SetBackground u n1 n2) = True"
| "mutating (Delete c i) = True"
| "mutating (Save i d l) = True"
| "mutating _ = False"

text \<open>
  An action on a control that is not rendered cannot happen; otherwise the bound handler
  runs. Retry is \<^verbatim>\<open>window.location.reload()\<close>; the contact button opens a \<^verbatim>\<open>mailto:\<close> link and
  touches neither the view state nor the remote.
\<close>

fun run_handler :: "fault \<Rightarrow> action \<Rightarrow> gallery \<times> remote \<Rightarrow> gallery \<times> remote" where
  "run_handler f Retry (g, r) = (g\<lparr>reloads := Suc (reloads g)\<rparr>, r)"
| "run_handler f (BulkDelete c) (g, r) = handleBulkDelete f c (g, r)"
| "run_handler f (Drag s d) (g, r) = (case handleDragEnd f s d (g, r) of Some x \<Rightarrow> x | None \<Rightarrow> (g, r))"
| "run_handler f (ClickImage i) (g, r) = (toggleImageSelection i g, r)"
| "run_handler f (Contact i) (g, r) = (g, r)"
| "run_handler f (SetBackground u n1 n2) (g, r) = handleSetAsBackground f n1 n2 u (g, r)"
| "run_handler f (Edit i) (g, r) = (g\<lparr>editingImage := Some i\<rparr>, r)"
| "run_handler f (Delete c i) (g, r) = handleDelete f c i (g, r)"
| "run_handler f (Cancel i) (g, r) = (g\<lparr>editingImage := None\<rparr>, r)"
| "run_handler f (Save i d l) (g, r) = handleUpdate f i d l (g, r)"
| "run_handler f LoadMore (g, r) = handleLoadMore f (g, r)"

definition act :: "fault \<Rightarrow> action \<Rightarrow> gallery \<times> remote \<Rightarrow> gallery \<times> remote" where
  "act f a = (\<lambda>(g, r). if rendered g (control_of a) then run_handler f a (g, r) else (g, r))"

text \<open>
  The view of a caller for whom the admin check returned false: \<open>isAdmin\<close> is false, and
  nothing is being edited or selected.
\<close>

definition visitor :: "gallery \<Rightarrow> bool" where
  "visitor g \<longleftrightarrow> \<not> isAdmin g \<and> editingImage g = None \<and> selectedImages g = []"

section \<open>Orders on records\<close>






section \<open>Label parsing\<close>

lemma split_on_not_Nil: "split_on sep s \<noteq> []"
  by (induction s) (auto split: list.splits)

lemma join_split_on: "join sep (split_on sep s) = s"
proof (induction s)
  case Nil
  then show ?case by simp
next
  case (Cons c cs)
  obtain p ps where sp: "split_on sep cs = p # ps"
    using split_on_not_Nil [of sep cs] by (cases "split_on sep cs") auto
  show ?case
  proof (cases "c = sep")
    case True
    with Cons sp show ?thesis by simp
  next
    case False
    with Cons sp show ?thesis by (cases ps) auto
  qed
qed

lemma split_on_free: "p \<in> set (split_on sep s) \<Longrightarrow> sep \<notin> set p"
proof (induction s arbitrary: p)
  case Nil
  then show ?case by simp
next
  case (Cons c cs)
  then show ?case
    by (cases "split_on sep cs") (auto split: if_splits)
qed

lemma split_on_append: "split_on sep (s @ sep # t) = split_on sep s @ split_on sep t"
proof (induction s)
  case Nil
  then show ?case by simp
next
  case (Cons c cs)
  then show ?case
    using split_on_not_Nil [of sep cs] by (cases "split_on sep cs") auto
qed

lemma trim_decomp:
  "s = takeWhile isWhiteSpace s @ trim s @ rev (takeWhile isWhiteSpace (rev (dropWhile isWhiteSpace s)))"
proof -
  let ?d = "dropWhile isWhiteSpace s"
  have "rev ?d = takeWhile isWhiteSpace (rev ?d) @ dropWhile isWhiteSpace (rev ?d)"
    by simp
  then have "?d = rev (dropWhile isWhiteSpace (rev ?d)) @ rev (takeWhile isWhiteSpace (rev ?d))"
    by (metis rev_append rev_rev_ident)
  then have "takeWhile isWhiteSpace s @ ?d
       = takeWhile isWhiteSpace s @ trim s @ rev (takeWhile isWhiteSpace (rev ?d))"
    by (simp add: trim_def)
  then show ?thesis by simp
qed

lemma trim_hd: "trim s \<noteq> [] \<Longrightarrow> \<not> isWhiteSpace (hd (trim s))"
proof -
  assume ne: "trim s \<noteq> []"
  let ?d = "dropWhile isWhiteSpace s"
  from ne have dne: "?d \<noteq> []" by (auto simp: trim_def simp del: dropWhile_eq_Nil_conv)
  then have h: "\<not> isWhiteSpace (hd ?d)" by (rule hd_dropWhile)
  have "?d = trim s @ rev (takeWhile isWhiteSpace (rev ?d))"
    by (metis trim_def rev_append rev_rev_ident takeWhile_dropWhile_id)
  then have "hd ?d = hd (trim s)" using ne by (metis hd_append2)
  with h show ?thesis by simp
qed

lemma trim_last: "trim s \<noteq> [] \<Longrightarrow> \<not> isWhiteSpace (last (trim s))"
proof -
  assume ne: "trim s \<noteq> []"
  let ?e = "dropWhile isWhiteSpace (rev (dropWhile isWhiteSpace s))"
  from ne have "?e \<noteq> []" by (simp add: trim_def)
  then have "\<not> isWhiteSpace (hd ?e)" by (rule hd_dropWhile)
  moreover have "last (trim s) = hd ?e" using \<open>?e \<noteq> []\<close> by (simp add: trim_def last_rev)
  ultimately show ?thesis by simp
qed

lemma set_trim: "set (trim s) \<subseteq> set s"
  by (metis trim_def set_rev set_dropWhileD subsetI)

lemma parse_labels_append:
  "parse_labels (s @ comma # t) = parse_labels s @ parse_labels t"
  by (simp add: parse_labels_def split_on_append)

lemma parse_labels_entry:
  assumes "l \<in> set (parse_labels s)"
  shows "l \<noteq> [] \<and> \<not> isWhiteSpace (hd l) \<and> \<not> isWhiteSpace (last l) \<and> comma \<notin> set l"
proof -
  from assms obtain p where p: "p \<in> set (split_on comma s)" and l: "l = trim p" and ne: "l \<noteq> []"
    by (auto simp: parse_labels_def)
  have "comma \<notin> set l" using split_on_free [OF p] set_trim [of p] l by auto
  with l ne trim_hd trim_last show ?thesis by simp
qed

lemma parse_labels_example:
  "parse_labels (js ''a, b ,  , b'') = [js ''a'', js ''b'', js ''b'']"
  by (simp add: parse_labels_def js_def comma_def trim_def isWhiteSpace_def)

lemma handleUpdate_success:
  assumes "db_ok r"
    and "\<not> f r (UpdateImageDoc i (no_patch\<lparr>p_description := Some d, p_labels := Some (parse_labels s)\<rparr>))"
  shows "handleUpdate f i d s (g, r) =
           (g\<lparr>images := map (\<lambda>x. if id' x = i then x\<lparr>description := d, labels := parse_labels s\<rparr> else x) (images g),
              editingImage := None\<rparr>,
            r\<lparr>calls := calls r @ [UpdateImageDoc i (no_patch\<lparr>p_description := Some d, p_labels := Some (parse_labels s)\<rparr>)],
              imagesColl := map (\<lambda>x. if id' x = i then x\<lparr>description := d, labels := parse_labels s\<rparr> else x) (imagesColl r)\<rparr>)"
  using assms
  by (simp add: handleUpdate_def updateImageMetadata_def updateDoc_def perform_def Let_def
      apply_patch_def no_patch_def)

lemma trim_cuts_white_space:
  "\<exists>a b. p = a @ trim p @ b \<and> (\<forall>c \<in> set a. isWhiteSpace c) \<and> (\<forall>c \<in> set b. isWhiteSpace c)"
proof -
  let ?a = "takeWhile isWhiteSpace p"
  let ?b = "rev (takeWhile isWhiteSpace (rev (dropWhile isWhiteSpace p)))"
  have "p = ?a @ trim p @ ?b" by (rule trim_decomp)
  moreover have "\<forall>c \<in> set ?a. isWhiteSpace c" by (auto dest: set_takeWhileD)
  moreover have "\<forall>c \<in> set ?b. isWhiteSpace c" by (auto dest: set_takeWhileD)
  ultimately show ?thesis by blast
qed

text \<open>
  C6: the labels \<^verbatim>\<open>handleUpdate\<close> persists are the raw input split at its commas (the
  pieces are comma-free and joined by commas give the input back), each piece trimmed
  (only white space is cut, and none is left at either end), the empty ones dropped, and
  nothing deduplicated: parsing \<open>s,s\<close> gives the labels of \<open>s\<close> twice, and
  \<^verbatim>\<open>"a, b ,  , b"\<close> gives \<^verbatim>\<open>["a","b","b"]\<close>. When the write is accepted, the stored
  document and the local record of that id carry exactly this list.
\<close>

theorem C6_labels_split_trimmed_nonempty_kept_duplicates:
  "parse_labels s = filter (\<lambda>l. l \<noteq> []) (map trim (split_on comma s))
   \<and> join comma (split_on comma s) = s
   \<and> (\<forall>p \<in> set (split_on comma s). comma \<notin> set p)
   \<and> (\<forall>p. \<exists>a b. p = a @ trim p @ b \<and> (\<forall>c \<in> set a. isWhiteSpace c) \<and> (\<forall>c \<in> set b. isWhiteSpace c))
   \<and> (\<forall>l \<in> set (parse_labels s). l \<noteq> [] \<and> \<not> isWhiteSpace (hd l) \<and> \<not> isWhiteSpace (last l))
   \<and> parse_labels (s @ comma # s) = parse_labels s @ parse_labels s
   \<and> parse_labels (js ''a, b ,  , b'') = [js ''a'', js ''b'', js ''b'']
   \<and> (db_ok r \<and> \<not> f r (UpdateImageDoc i (no_patch\<lparr>p_description := Some d, p_labels := Some (parse_labels s)\<rparr>))
        \<longrightarrow> handleUpdate f i d s (g, r) =
           (g\<lparr>images := map (\<lambda>x. if id' x = i then x\<lparr>description := d, labels := parse_labels s\<rparr> else x) (images g),
              editingImage := None\<rparr>,
            r\<lparr>calls := calls r @ [UpdateImageDoc i (no_patch\<lparr>p_description := Some d, p_labels := Some (parse_labels s)\<rparr>)],
              imagesColl := map (\<lambda>x. if id' x = i then x\<lparr>description := d, labels := parse_labels s\<rparr> else x) (imagesColl r)\<rparr>))"
proof -
  have a: "parse_labels s = filter (\<lambda>l. l \<noteq> []) (map trim (split_on comma s))"
    by (simp add: parse_labels_def)
  have b: "join comma (split_on comma s) = s" by (rule join_split_on)
  have c: "\<forall>p \<in> set (split_on comma s). comma \<notin> set p"
    using split_on_free [of _ comma s] by blast
  have d: "\<forall>p. \<exists>a b. p = a @ trim p @ b \<and> (\<forall>c \<in> set a. isWhiteSpace c) \<and> (\<forall>c \<in> set b. isWhiteSpace c)"
    by (rule allI) (rule trim_cuts_white_space)
  have e: "\<forall>l \<in> set (parse_labels s). l \<noteq> [] \<and> \<not> isWhiteSpace (hd l) \<and> \<not> isWhiteSpace (last l)"
    using parse_labels_entry [of _ s] by blast
  have f: "parse_labels (s @ comma # s) = parse_labels s @ parse_labels s"
    by (rule parse_labels_append)
  have g: "parse_labels (js ''a, b ,  , b'') = [js ''a'', js ''b'', js ''b'']"
    by (rule parse_labels_example)
  have h: "db_ok r \<and> \<not> f r (UpdateImageDoc i (no_patch\<lparr>p_description := Some d, p_labels := Some (parse_labels s)\<rparr>))
        \<longrightarrow> handleUpdate f i d s (g, r) =
           (g\<lparr>images := map (\<lambda>x. if id' x = i then x\<lparr>description := d, labels := parse_labels s\<rparr> else x) (images g),
              editingImage := None\<rparr>,
            r\<lparr>calls := calls r @ [UpdateImageDoc i (no_patch\<lparr>p_description := Some d, p_labels := Some (parse_labels s)\<rparr>)],
              imagesColl := map (\<lambda>x. if id' x = i then x\<lparr>description := d, labels := parse_labels s\<rparr> else x) (imagesColl r)\<rparr>)"
    using handleUpdate_success [where r=r and f=f and i=i and d=d and s=s and g=g] by blast
  show ?thesis by (intro conjI a b c d e f g h)
qed

theorem C6_witness:
  "labels (hd (imagesColl (snd (handleUpdate no_fault (js ''a'') [] (js ''a, b ,  , b'')
      (mk_gallery True [mk_image ''a'' ''1'' None], mk_remote [mk_image ''a'' ''1'' None])))))
     = [js ''a'', js ''b'', js ''b'']
   \<and> db_ok (mk_remote [mk_image ''a'' ''1'' None])
   \<and> js ''a'' \<in> set (parse_labels (js ''a, b ,  , b''))"
proof -
  let ?r = "mk_remote [mk_image ''a'' ''1'' None]"
  let ?g = "mk_gallery True [mk_image ''a'' ''1'' None]"
  let ?s = "js ''a, b ,  , b''"
  note t = C6_labels_split_trimmed_nonempty_kept_duplicates
    [where s="?s" and r="?r" and f=no_fault and i="js ''a''" and d="[]" and g="?g"]
  have db: "db_ok ?r" by (simp add: mk_remote_def)
  have nf: "\<not> no_fault ?r c" for c by (simp add: no_fault_def)
  from t have ex: "parse_labels ?s = [js ''a'', js ''b'', js ''b'']" by (elim conjE)
  from t db nf have "handleUpdate no_fault (js ''a'') [] ?s (?g, ?r) =
           (?g\<lparr>images := map (\<lambda>x. if id' x = js ''a'' then x\<lparr>description := [], labels := parse_labels ?s\<rparr> else x) (images ?g),
              editingImage := None\<rparr>,
            ?r\<lparr>calls := calls ?r @ [UpdateImageDoc (js ''a'') (no_patch\<lparr>p_description := Some [], p_labels := Some (parse_labels ?s)\<rparr>)],
              imagesColl := map (\<lambda>x. if id' x = js ''a'' then x\<lparr>description := [], labels := parse_labels ?s\<rparr> else x) (imagesColl ?r)\<rparr>)"
    by blast
  then have "labels (hd (imagesColl (snd (handleUpdate no_fault (js ''a'') [] ?s (?g, ?r))))) = parse_labels ?s"
    by (simp add: mk_remote_def mk_image_def)
  with ex db show ?thesis by simp
qed

section \<open>Upload\<close>

lemma uploadImage_Inr:
  assumes "uploadImage f e r = (Inr m, ps, r')"
  shows "m = \<lparr>id' = fresh_id e, url = downloadURL e, fileName = file_name e, description = [],
              labels = [], createdAt = iso_now e, position = Some 0\<rparr>
         \<and> imagesColl r' = filter (\<lambda>x. id' x \<noteq> fresh_id e) (imagesColl r) @ [m]"
  using assms
  by (auto simp add: uploadImage_def setDoc_def perform_def Let_def split: if_splits)

text \<open>
  C10: the record of a successful \<^verbatim>\<open>uploadImage\<close> has position 0, an empty description and
  no labels, and is the document written to the collection under the fresh id. Two
  successful uploads under different ids leave two different documents in the collection
  that both have position 0: positions are not unique.
\<close>

theorem C10_upload_writes_position_zero:
  "(uploadImage f e r = (Inr m, ps, r') \<longrightarrow>
      position m = Some 0 \<and> description m = [] \<and> labels m = [] \<and> id' m = fresh_id e
      \<and> imagesColl r' = filter (\<lambda>x. id' x \<noteq> fresh_id e) (imagesColl r) @ [m])
   \<and> (uploadImage f e1 r = (Inr m1, ps1, r1) \<and> uploadImage f' e2 r1 = (Inr m2, ps2, r2)
        \<and> fresh_id e1 \<noteq> fresh_id e2 \<longrightarrow>
      m1 \<in> set (imagesColl r2) \<and> m2 \<in> set (imagesColl r2) \<and> m1 \<noteq> m2
      \<and> position m1 = Some 0 \<and> position m2 = Some 0)"
proof (rule conjI; rule impI)
  assume u: "uploadImage f e r = (Inr m, ps, r')"
  from uploadImage_Inr [OF u]
  show "position m = Some 0 \<and> description m = [] \<and> labels m = [] \<and> id' m = fresh_id e
      \<and> imagesColl r' = filter (\<lambda>x. id' x \<noteq> fresh_id e) (imagesColl r) @ [m]"
    by simp
next
  assume h: "uploadImage f e1 r = (Inr m1, ps1, r1) \<and> uploadImage f' e2 r1 = (Inr m2, ps2, r2)
        \<and> fresh_id e1 \<noteq> fresh_id e2"
  then have u1: "uploadImage f e1 r = (Inr m1, ps1, r1)"
    and u2: "uploadImage f' e2 r1 = (Inr m2, ps2, r2)"
    and ne: "fresh_id e1 \<noteq> fresh_id e2" by simp_all
  note a = uploadImage_Inr [OF u1] and b = uploadImage_Inr [OF u2]
  from a have i1: "id' m1 = fresh_id e1" and p1: "position m1 = Some 0" by simp_all
  from b have i2: "id' m2 = fresh_id e2" and p2: "position m2 = Some 0" by simp_all
  from a have "m1 \<in> set (imagesColl r1)" by simp
  with b i1 ne have in1: "m1 \<in> set (imagesColl r2)" by simp
  from b have in2: "m2 \<in> set (imagesColl r2)" by simp
  from i1 i2 ne have "m1 \<noteq> m2" by auto
  with in1 in2 p1 p2
  show "m1 \<in> set (imagesColl r2) \<and> m2 \<in> set (imagesColl r2) \<and> m1 \<noteq> m2
      \<and> position m1 = Some 0 \<and> position m2 = Some 0" by simp
qed

lemma upload_run:
  "db_ok r \<Longrightarrow> storage_ok r \<Longrightarrow> \<exists>ps r'. uploadImage no_fault e r =
     (Inr \<lparr>id' = fresh_id e, url = downloadURL e, fileName = file_name e, description = [],
              labels = [], createdAt = iso_now e, position = Some 0\<rparr>, ps, r') \<and> db_ok r' \<and> storage_ok r'"
  by (simp add: uploadImage_def setDoc_def perform_def Let_def no_fault_def)

theorem C10_witness:
  "map position (imagesColl (snd (snd (uploadImage no_fault (mk_upload ''y'')
       (snd (snd (uploadImage no_fault (mk_upload ''x'') (mk_remote []))))))))
     = [Some 0, Some 0]
   \<and> fresh_id (mk_upload ''x'') \<noteq> fresh_id (mk_upload ''y'')"
proof -
  let ?e1 = "mk_upload ''x''" and ?e2 = "mk_upload ''y''"
  have ne: "fresh_id ?e1 \<noteq> fresh_id ?e2" by (simp add: mk_upload_def js_def)
  obtain m1 ps1 r1 where u1: "uploadImage no_fault ?e1 (mk_remote []) = (Inr m1, ps1, r1)"
    and ok1: "db_ok r1" "storage_ok r1"
    using upload_run [of "mk_remote []" ?e1] by (auto simp: mk_remote_def)
  obtain m2 ps2 r2 where u2: "uploadImage no_fault ?e2 r1 = (Inr m2, ps2, r2)"
    using upload_run [OF ok1, of ?e2] by auto
  note t = C10_upload_writes_position_zero
  from t [where f=no_fault and e="?e1" and r="mk_remote []" and m=m1 and ps=ps1 and r'=r1] u1
  have c1: "imagesColl r1 = [m1]" and i1: "id' m1 = fresh_id ?e1" by (simp_all add: mk_remote_def)
  from t [where f=no_fault and e="?e2" and r=r1 and m=m2 and ps=ps2 and r'=r2] u2
  have c2: "imagesColl r2 = filter (\<lambda>x. id' x \<noteq> fresh_id ?e2) (imagesColl r1) @ [m2]" by simp
  from t [where f=no_fault and f'=no_fault and ?e1.0="?e1" and ?e2.0="?e2" and r="mk_remote []"
        and ?m1.0=m1 and ?m2.0=m2 and ?ps1.0=ps1 and ?ps2.0=ps2 and ?r1.0=r1 and ?r2.0=r2] u1 u2 ne
  have p: "position m1 = Some 0" "position m2 = Some 0" by simp_all
  from c1 c2 i1 ne p have "map position (imagesColl r2) = [Some 0, Some 0]" by simp
  with u1 u2 ne show ?thesis by simp
qed

section \<open>Deletion\<close>














section \<open>Paged fetch\<close>

lemma getPaginatedImages_Inr:
  assumes "getPaginatedImages f pageSize cursor category r = (Inr res, r')"
  shows "db_ok r \<and> \<not> f r (GetDocs (query_constraints pageSize cursor category))
     \<and> r' = r\<lparr>calls := calls r @ [GetDocs (query_constraints pageSize cursor category)]\<rparr>
     \<and> page_images res = runQuery (query_constraints pageSize cursor category) (imagesColl r)
     \<and> page_lastVisible res = (if page_images res = [] then None else Some (last (page_images res)))
     \<and> page_hasMore res = (int (length (page_images res)) = pageSize)"
  using assms
  by (auto simp add: getPaginatedImages_def perform_def Let_def last_conv_nth split: if_splits)

lemma getPaginatedImages_Inl:
  assumes "getPaginatedImages f pageSize cursor category r = (Inl e, r')"
  shows "imagesColl r' = imagesColl r \<and> (e = NotInitialized \<or> e = FetchFailed)"
  using assms
  by (auto simp add: getPaginatedImages_def perform_def Let_def split: if_splits)

lemma handleLoadMore_Inr:
  assumes "getPaginatedImages f PAGE_SIZE (lastVisible g) (selectedCategory g) r = (Inr res, r')"
    and "hasMore g" and "\<not> loadingMore g"
  shows "handleLoadMore f (g, r) =
           (g\<lparr>images := images g @ page_images res, lastVisible := page_lastVisible res,
              hasMore := page_hasMore res,
              categories := from_set (categories g @ all_labels (page_images res))\<rparr>, r')"
  using assms by (simp add: handleLoadMore_def Let_def)

lemma handleLoadMore_done: "\<not> hasMore g \<Longrightarrow> handleLoadMore f (g, r) = (g, r)"
  by (simp add: handleLoadMore_def)


text \<open>
  C1: for every successful \<^verbatim>\<open>getPaginatedImages\<close>, \<open>hasMore\<close> holds exactly when the number
  of returned records equals \<open>pageSize\<close>, and the returned cursor is the last returned
  record, or \<^verbatim>\<open>null\<close> when nothing is returned. A call returning no record for a positive
  \<open>pageSize\<close> has \<open>hasMore = false\<close>; when it is the controller's load-more call, the view
  keeps its records, has \<open>hasMore = false\<close>, and every later load-more returns at once
  without a remote call.
\<close>

theorem C1_fetchPage_hasMore_and_cursor:
  assumes "getPaginatedImages f pageSize cursor category r = (Inr res, r')"
  shows "(page_hasMore res \<longleftrightarrow> int (length (page_images res)) = pageSize)
     \<and> page_lastVisible res = (if page_images res = [] then None else Some (last (page_images res)))
     \<and> (page_images res = [] \<and> 0 < pageSize \<longrightarrow> \<not> page_hasMore res)
     \<and> (page_images res = [] \<and> pageSize = PAGE_SIZE \<and> cursor = lastVisible g
          \<and> category = selectedCategory g \<and> hasMore g \<and> \<not> loadingMore g \<longrightarrow>
          \<not> hasMore (fst (handleLoadMore f (g, r)))
          \<and> images (fst (handleLoadMore f (g, r))) = images g
          \<and> snd (handleLoadMore f (g, r)) = r'
          \<and> handleLoadMore f2 (handleLoadMore f (g, r)) = handleLoadMore f (g, r))"
proof -
  note p = getPaginatedImages_Inr [where f=f, OF assms]
  from p have a: "page_hasMore res \<longleftrightarrow> int (length (page_images res)) = pageSize" by simp
  from p have b: "page_lastVisible res = (if page_images res = [] then None else Some (last (page_images res)))"
    by simp
  from a have c: "page_images res = [] \<and> 0 < pageSize \<longrightarrow> \<not> page_hasMore res" by auto
  have d: "page_images res = [] \<and> pageSize = PAGE_SIZE \<and> cursor = lastVisible g
          \<and> category = selectedCategory g \<and> hasMore g \<and> \<not> loadingMore g \<longrightarrow>
          \<not> hasMore (fst (handleLoadMore f (g, r)))
          \<and> images (fst (handleLoadMore f (g, r))) = images g
          \<and> snd (handleLoadMore f (g, r)) = r'
          \<and> handleLoadMore f2 (handleLoadMore f (g, r)) = handleLoadMore f (g, r)"
  proof (intro impI, elim conjE)
    assume e: "page_images res = []" and ps: "pageSize = PAGE_SIZE" and cu: "cursor = lastVisible g"
      and ca: "category = selectedCategory g" and hm: "hasMore g" and lm: "\<not> loadingMore g"
    from assms ps cu ca
    have "getPaginatedImages f PAGE_SIZE (lastVisible g) (selectedCategory g) r = (Inr res, r')" by simp
    note h = handleLoadMore_Inr [where f=f, OF this hm lm]
    from a e ps have nm: "\<not> page_hasMore res" by (simp add: PAGE_SIZE_def)
    have 1: "\<not> hasMore (fst (handleLoadMore f (g, r)))" by (simp add: h nm)
    have 2: "images (fst (handleLoadMore f (g, r))) = images g" by (simp add: h e)
    have 3: "snd (handleLoadMore f (g, r)) = r'" by (simp add: h)
    have "handleLoadMore f2 (fst (handleLoadMore f (g, r)), snd (handleLoadMore f (g, r)))
            = (fst (handleLoadMore f (g, r)), snd (handleLoadMore f (g, r)))"
      using 1 by (rule handleLoadMore_done)
    then have 4: "handleLoadMore f2 (handleLoadMore f (g, r)) = handleLoadMore f (g, r)" by simp
    show "\<not> hasMore (fst (handleLoadMore f (g, r)))
          \<and> images (fst (handleLoadMore f (g, r))) = images g
          \<and> snd (handleLoadMore f (g, r)) = r'
          \<and> handleLoadMore f2 (handleLoadMore f (g, r)) = handleLoadMore f (g, r)"
      by (intro conjI 1 2 3 4)
  qed
  show ?thesis by (intro conjI a b c d)
qed

lemma runQuery_two_first:
  "runQuery (query_constraints 2 None None) [mk_image ''a'' ''2'' None, mk_image ''b'' ''1'' None]
     = [mk_image ''a'' ''2'' None, mk_image ''b'' ''1'' None]"
  by (simp add: runQuery_def query_constraints_def sort_by_def compare_def mk_image_def js_def)

lemma runQuery_two_second:
  "runQuery (query_constraints 2 (Some (mk_image ''b'' ''1'' None)) None)
      [mk_image ''a'' ''2'' None, mk_image ''b'' ''1'' None] = []"
  by (simp add: runQuery_def query_constraints_def sort_by_def compare_def mk_image_def js_def)


theorem C1_witness:
  "fst (getPaginatedImages no_fault 2 None None
          (mk_remote [mk_image ''a'' ''2'' None, mk_image ''b'' ''1'' None]))
     = Inr \<lparr>page_images = [mk_image ''a'' ''2'' None, mk_image ''b'' ''1'' None],
            page_lastVisible = Some (mk_image ''b'' ''1'' None), page_hasMore = True\<rparr>
   \<and> fst (getPaginatedImages no_fault 2 (Some (mk_image ''b'' ''1'' None)) None
          (mk_remote [mk_image ''a'' ''2'' None, mk_image ''b'' ''1'' None]))
     = Inr \<lparr>page_images = [], page_lastVisible = None, page_hasMore = False\<rparr>"
proof -
  let ?a = "mk_image ''a'' ''2'' None" and ?b = "mk_image ''b'' ''1'' None"
  let ?R = "mk_remote [?a, ?b]"
  obtain res1 r1 where e1: "getPaginatedImages no_fault 2 None None ?R = (Inr res1, r1)"
    and i1: "page_images res1 = [?a, ?b]"
    by (simp add: getPaginatedImages_def perform_def no_fault_def mk_remote_def Let_def
        runQuery_two_first)
  obtain res2 r2 where e2: "getPaginatedImages no_fault 2 (Some ?b) None ?R = (Inr res2, r2)"
    and i2: "page_images res2 = []"
    by (simp add: getPaginatedImages_def perform_def no_fault_def mk_remote_def Let_def
        runQuery_two_second)
  note t1 = C1_fetchPage_hasMore_and_cursor [where f=no_fault and g=initial_gallery and ?f2.0=no_fault, OF e1]
  note t2 = C1_fetchPage_hasMore_and_cursor [where f=no_fault and g=initial_gallery and ?f2.0=no_fault, OF e2]
  from t1 i1 have h1: "page_hasMore res1 = True" and l1: "page_lastVisible res1 = Some ?b" by simp_all
  from t2 i2 have h2: "page_hasMore res2 = False" and l2: "page_lastVisible res2 = None" by simp_all
  from i1 h1 l1 have "res1 = \<lparr>page_images = [?a, ?b], page_lastVisible = Some ?b, page_hasMore = True\<rparr>"
    by simp
  moreover from i2 h2 l2 have "res2 = \<lparr>page_images = [], page_lastVisible = None, page_hasMore = False\<rparr>"
    by simp
  ultimately show ?thesis using e1 e2 by simp
qed

section \<open>Reorder\<close>

lemma splice_reinsert_nth:
  assumes "src < length xs" and "dst < length xs" and "j < length xs"
  shows "splice_in dst (xs ! src) (take src xs @ drop (Suc src) xs) ! j = xs ! moved_from src dst j"
  using assms
  by (auto simp add: splice_in_def moved_from_def nth_append min_def
      intro!: arg_cong [where f="(!) xs"])

lemma splice_reinsert_length:
  assumes "src < length xs"
  shows "length (splice_in dst (xs ! src) (take src xs @ drop (Suc src) xs)) = length xs"
  using assms by (auto simp add: splice_in_def min_def)

lemma splice_same: "i < length xs \<Longrightarrow> splice_in i (xs ! i) (take i xs @ drop (Suc i) xs) = xs"
  by (simp add: splice_in_def min_def id_take_nth_drop [symmetric])

lemma renumber_length: "length (renumber xs) = length xs"
  by (simp add: renumber_def)

lemma renumber_nth: "j < length xs \<Longrightarrow> renumber xs ! j = (xs ! j)\<lparr>position := Some (int j)\<rparr>"
  by (simp add: renumber_def)

lemma write_positions_calls:
  "calls (snd (write_positions f xs r)) = calls r @ position_writes xs"
proof (induction xs arbitrary: r)
  case Nil
  then show ?case by (simp add: position_writes_def)
next
  case (Cons x xs)
  obtain res r1 where u: "updateDoc f (id' x) (no_patch\<lparr>p_position := position x\<rparr>) r = (res, r1)"
    by (cases "updateDoc f (id' x) (no_patch\<lparr>p_position := position x\<rparr>) r")
  then have c: "calls r1 = calls r @ [UpdateImageDoc (id' x) (no_patch\<lparr>p_position := position x\<rparr>)]"
    by (auto simp add: updateDoc_def perform_def split: if_splits)
  obtain ok r2 where w: "write_positions f xs r1 = (ok, r2)" by (cases "write_positions f xs r1")
  from Cons.IH [of r1] w have "calls r2 = calls r1 @ position_writes xs" by simp
  with u w c show ?case by (simp add: position_writes_def)
qed


lemma handleDragEnd_admin:
  assumes "isAdmin g" and "src < length (images g)"
  shows "\<exists>g' r'. handleDragEnd f src (Some dst) (g, r) = Some (g', r')
     \<and> images g' = renumber (splice_in dst (images g ! src) (take src (images g) @ drop (Suc src) (images g)))
     \<and> (db_ok r \<longrightarrow> calls r' = calls r @ position_writes (images g'))
     \<and> (\<not> db_ok r \<longrightarrow> r' = r)"
proof -
  let ?u = "renumber (splice_in dst (images g ! src) (take src (images g) @ drop (Suc src) (images g)))"
  obtain ok r1 where w: "write_positions f ?u r = (ok, r1)" by (cases "write_positions f ?u r")
  from write_positions_calls [of f ?u r] w have c: "calls r1 = calls r @ position_writes ?u" by simp
  have ne: "?u \<noteq> []" by (simp add: renumber_def splice_in_def)
  show ?thesis
  proof (cases "db_ok r")
    case True
    with assms w c show ?thesis
      by (simp add: handleDragEnd_def splice_out_def Let_def)
  next
    case False
    with assms ne show ?thesis
      by (simp add: handleDragEnd_def splice_out_def Let_def)
  qed
qed

text \<open>
  C2: for an admin and valid indices, \<^verbatim>\<open>handleDragEnd\<close> returns with the local sequence set
  to the old one with the record at \<open>src\<close> taken out and put back at \<open>dst\<close>: the length is
  kept, the record at each index \<open>j\<close> is, up to its position, the old record at
  \<open>moved_from src dst j\<close>, and its position is \<open>j\<close>. One position write per record of the
  new sequence is issued.
\<close>

theorem C2_reorder_moves_and_renumbers:
  assumes "isAdmin g" and "src < length (images g)" and "dst < length (images g)"
  shows "\<exists>g' r'. handleDragEnd f src (Some dst) (g, r) = Some (g', r')
     \<and> images g' = renumber (splice_in dst (images g ! src) (snd (splice_out src (images g))))
     \<and> length (images g') = length (images g)
     \<and> (\<forall>j < length (images g).
           position (images g' ! j) = Some (int j)
           \<and> unpositioned (images g' ! j) = unpositioned (images g ! moved_from src dst j))
     \<and> (db_ok r \<longrightarrow> calls r' = calls r @ position_writes (images g'))"
proof -
  let ?xs = "images g"
  let ?ys = "splice_in dst (?xs ! src) (take src ?xs @ drop (Suc src) ?xs)"
  from handleDragEnd_admin [where f=f, OF assms(1,2), of dst r]
  obtain g' r' where h: "handleDragEnd f src (Some dst) (g, r) = Some (g', r')"
    and i: "images g' = renumber ?ys"
    and c: "db_ok r \<longrightarrow> calls r' = calls r @ position_writes (images g')" by blast
  have so: "snd (splice_out src ?xs) = take src ?xs @ drop (Suc src) ?xs"
    using assms(2) by (simp add: splice_out_def)
  have len: "length ?ys = length ?xs" by (rule splice_reinsert_length [OF assms(2)])
  have l: "length (images g') = length ?xs" by (simp add: i renumber_length len)
  have n: "\<forall>j < length ?xs.
           position (images g' ! j) = Some (int j)
           \<and> unpositioned (images g' ! j) = unpositioned (?xs ! moved_from src dst j)"
  proof (intro allI impI)
    fix j assume j: "j < length ?xs"
    then have "images g' ! j = (?ys ! j)\<lparr>position := Some (int j)\<rparr>"
      by (simp add: i renumber_nth len)
    moreover have "?ys ! j = ?xs ! moved_from src dst j"
      by (rule splice_reinsert_nth [OF assms(2,3) j])
    ultimately show "position (images g' ! j) = Some (int j)
           \<and> unpositioned (images g' ! j) = unpositioned (?xs ! moved_from src dst j)"
      by (simp add: unpositioned_def)
  qed
  from i so have i': "images g' = renumber (splice_in dst (?xs ! src) (snd (splice_out src ?xs)))"
    by simp
  from h i' l n c show ?thesis by blast
qed


lemmas run_defs = handleDragEnd_def splice_out_def splice_in_def renumber_def updateDoc_def
  perform_def no_fault_def mk_gallery_def mk_remote_def mk_image_def initial_gallery_def js_def
  Let_def apply_patch_def no_patch_def position_writes_def

theorem C2_witness:
  "map id' (images (fst (the (handleDragEnd no_fault 0 (Some 2)
       (mk_gallery True [mk_image ''a'' ''3'' None, mk_image ''b'' ''2'' None, mk_image ''c'' ''1'' None],
        mk_remote [mk_image ''a'' ''3'' None, mk_image ''b'' ''2'' None, mk_image ''c'' ''1'' None])))))
     = [js ''b'', js ''c'', js ''a'']
   \<and> map position (images (fst (the (handleDragEnd no_fault 0 (Some 2)
       (mk_gallery True [mk_image ''a'' ''3'' None, mk_image ''b'' ''2'' None, mk_image ''c'' ''1'' None],
        mk_remote [mk_image ''a'' ''3'' None, mk_image ''b'' ''2'' None, mk_image ''c'' ''1'' None])))))
     = [Some 0, Some 1, Some 2]"
proof -
  let ?xs = "[mk_image ''a'' ''3'' None, mk_image ''b'' ''2'' None, mk_image ''c'' ''1'' None]"
  let ?g = "mk_gallery True ?xs" and ?r = "mk_remote ?xs"
  have a: "isAdmin ?g" by (simp add: mk_gallery_def)
  have s: "0 < length (images ?g)" and d: "2 < length (images ?g)" by (simp_all add: mk_gallery_def)
  from C2_reorder_moves_and_renumbers [where f=no_fault and r="?r", OF a s d]
  obtain g' r' where h: "handleDragEnd no_fault 0 (Some 2) (?g, ?r) = Some (g', r')"
    and i: "images g' = renumber (splice_in 2 (images ?g ! 0) (snd (splice_out 0 (images ?g))))"
    by blast
  have "renumber (splice_in 2 (images ?g ! 0) (snd (splice_out 0 (images ?g))))
      = [(mk_image ''b'' ''2'' None)\<lparr>position := Some 0\<rparr>,
         (mk_image ''c'' ''1'' None)\<lparr>position := Some 1\<rparr>,
         (mk_image ''a'' ''3'' None)\<lparr>position := Some 2\<rparr>]"
    by (simp add: mk_gallery_def splice_out_def splice_in_def renumber_def upt_rec)
  with i have "map id' (images g') = [js ''b'', js ''c'', js ''a'']"
    and "map position (images g') = [Some 0, Some 1, Some 2]"
    by (simp_all add: mk_image_def)
  with h show ?thesis by simp
qed


text \<open>
  C3, as stated, fails: an admin drops the first of two freshly uploaded records (both at
  position 0) back where it was. The handler does not return early: it renumbers the
  second record to position 1 and issues a position write for each of the two records.
\<close>

theorem C3_counterexample:
  "handleDragEnd no_fault 0 (Some 0)
       (mk_gallery True [mk_image ''a'' ''2'' (Some 0), mk_image ''b'' ''1'' (Some 0)],
        mk_remote [mk_image ''a'' ''2'' (Some 0), mk_image ''b'' ''1'' (Some 0)])
     = Some (mk_gallery True [mk_image ''a'' ''2'' (Some 0), mk_image ''b'' ''1'' (Some 1)],
             (mk_remote [mk_image ''a'' ''2'' (Some 0), mk_image ''b'' ''1'' (Some 1)])
               \<lparr>blobs := [js ''u-a'', js ''u-b''],
                calls := [UpdateImageDoc (js ''a'') (no_patch\<lparr>p_position := Some 0\<rparr>),
                          UpdateImageDoc (js ''b'') (no_patch\<lparr>p_position := Some 1\<rparr>)]\<rparr>)
   \<and> is_write (UpdateImageDoc (js ''a'') (no_patch\<lparr>p_position := Some 0\<rparr>))
   \<and> mk_gallery True [mk_image ''a'' ''2'' (Some 0), mk_image ''b'' ''1'' (Some 1)]
       \<noteq> mk_gallery True [mk_image ''a'' ''2'' (Some 0), mk_image ''b'' ''1'' (Some 0)]"
  by (simp add: run_defs upt_rec)

text \<open>
  C3, amended: an absent drop target is a no-op (no call, same state). Dropping a record
  where it was keeps the order of the local sequence, but is not a no-op: positions are
  renumbered to the indices (which changes nothing locally only if they were the indices
  already), and one position write per loaded record is issued.
\<close>

theorem C3_same_index_keeps_order_but_writes:
  "handleDragEnd f src None (g, r) = Some (g, r)
   \<and> (isAdmin g \<and> i < length (images g) \<longrightarrow>
        (\<exists>g' r'. handleDragEnd f i (Some i) (g, r) = Some (g', r')
           \<and> images g' = renumber (images g)
           \<and> map unpositioned (images g') = map unpositioned (images g)
           \<and> (map position (images g) = map (\<lambda>j. Some (int j)) [0..<length (images g)]
                 \<longrightarrow> images g' = images g)
           \<and> (db_ok r \<longrightarrow> calls r' = calls r @ position_writes (renumber (images g))
                           \<and> length (position_writes (renumber (images g))) = length (images g))))"
proof (rule conjI)
  show "handleDragEnd f src None (g, r) = Some (g, r)" by (simp add: handleDragEnd_def)
next
  show "isAdmin g \<and> i < length (images g) \<longrightarrow>
        (\<exists>g' r'. handleDragEnd f i (Some i) (g, r) = Some (g', r')
           \<and> images g' = renumber (images g)
           \<and> map unpositioned (images g') = map unpositioned (images g)
           \<and> (map position (images g) = map (\<lambda>j. Some (int j)) [0..<length (images g)]
                 \<longrightarrow> images g' = images g)
           \<and> (db_ok r \<longrightarrow> calls r' = calls r @ position_writes (renumber (images g))
                           \<and> length (position_writes (renumber (images g))) = length (images g)))"
  proof (intro impI, elim conjE)
    assume a: "isAdmin g" and l: "i < length (images g)"
    from handleDragEnd_admin [where f=f, OF a l, of i r]
    obtain g' r' where h: "handleDragEnd f i (Some i) (g, r) = Some (g', r')"
      and im: "images g' = renumber (images g)"
      and c: "db_ok r \<longrightarrow> calls r' = calls r @ position_writes (images g')"
      by (auto simp add: splice_same [OF l])
    have u: "map unpositioned (renumber (images g)) = map unpositioned (images g)"
      by (rule nth_equalityI) (simp_all add: renumber_length renumber_nth unpositioned_def)
    have s: "map position (images g) = map (\<lambda>j. Some (int j)) [0..<length (images g)]
                 \<longrightarrow> renumber (images g) = images g"
    proof
      assume p: "map position (images g) = map (\<lambda>j. Some (int j)) [0..<length (images g)]"
      show "renumber (images g) = images g"
      proof (rule nth_equalityI)
        show "length (renumber (images g)) = length (images g)" by (rule renumber_length)
      next
        fix j assume "j < length (renumber (images g))"
        then have j: "j < length (images g)" by (simp add: renumber_length)
        then have "map position (images g) ! j = Some (int j)" by (simp add: p)
        with j have "position (images g ! j) = Some (int j)" by simp
        with j show "renumber (images g) ! j = images g ! j" by (simp add: renumber_nth)
      qed
    qed
    have n: "length (position_writes (renumber (images g))) = length (images g)"
      by (simp add: position_writes_def renumber_length)
    from h im u s c n
    show "\<exists>g' r'. handleDragEnd f i (Some i) (g, r) = Some (g', r')
           \<and> images g' = renumber (images g)
           \<and> map unpositioned (images g') = map unpositioned (images g)
           \<and> (map position (images g) = map (\<lambda>j. Some (int j)) [0..<length (images g)]
                 \<longrightarrow> images g' = images g)
           \<and> (db_ok r \<longrightarrow> calls r' = calls r @ position_writes (renumber (images g))
                           \<and> length (position_writes (renumber (images g))) = length (images g))"
      by auto
  qed
qed


theorem C3_witness:
  "images (fst (the (handleDragEnd no_fault 1 (Some 1)
       (mk_gallery True [mk_image ''a'' ''2'' (Some 0), mk_image ''b'' ''1'' (Some 1)],
        mk_remote [mk_image ''a'' ''2'' (Some 0), mk_image ''b'' ''1'' (Some 1)]))))
     = [mk_image ''a'' ''2'' (Some 0), mk_image ''b'' ''1'' (Some 1)]
   \<and> calls (snd (the (handleDragEnd no_fault 1 (Some 1)
       (mk_gallery True [mk_image ''a'' ''2'' (Some 0), mk_image ''b'' ''1'' (Some 1)],
        mk_remote [mk_image ''a'' ''2'' (Some 0), mk_image ''b'' ''1'' (Some 1)]))))
     = [UpdateImageDoc (js ''a'') (no_patch\<lparr>p_position := Some 0\<rparr>),
        UpdateImageDoc (js ''b'') (no_patch\<lparr>p_position := Some 1\<rparr>)]"
proof -
  let ?xs = "[mk_image ''a'' ''2'' (Some 0), mk_image ''b'' ''1'' (Some 1)]"
  let ?g = "mk_gallery True ?xs" and ?r = "mk_remote ?xs"
  have a: "isAdmin ?g \<and> 1 < length (images ?g)" by (simp add: mk_gallery_def)
  have p: "map position (images ?g) = map (\<lambda>j. Some (int j)) [0..<length (images ?g)]"
    by (simp add: mk_gallery_def mk_image_def upt_rec)
  have d: "db_ok ?r" by (simp add: mk_remote_def)
  from C3_same_index_keeps_order_but_writes [where f=no_fault and g="?g" and r="?r" and i=1,
      THEN conjunct2, rule_format, OF a]
  obtain g' r' where h: "handleDragEnd no_fault 1 (Some 1) (?g, ?r) = Some (g', r')"
    and s: "map position (images ?g) = map (\<lambda>j. Some (int j)) [0..<length (images ?g)]
                 \<longrightarrow> images g' = images ?g"
    and c: "db_ok ?r \<longrightarrow> calls r' = calls ?r @ position_writes (renumber (images ?g))
                           \<and> length (position_writes (renumber (images ?g))) = length (images ?g)"
    by blast
  from s p have "images g' = ?xs" by (simp add: mk_gallery_def)
  moreover from c d have "calls r' = [UpdateImageDoc (js ''a'') (no_patch\<lparr>p_position := Some 0\<rparr>),
        UpdateImageDoc (js ''b'') (no_patch\<lparr>p_position := Some 1\<rparr>)]"
    by (simp add: mk_gallery_def mk_remote_def position_writes_def renumber_def mk_image_def upt_rec)
  ultimately show ?thesis using h by simp
qed

section \<open>Authorization\<close>

lemma handleLoadMore_fields:
  "isAdmin (fst (handleLoadMore f (g, r))) = isAdmin g
   \<and> editingImage (fst (handleLoadMore f (g, r))) = editingImage g
   \<and> selectedImages (fst (handleLoadMore f (g, r))) = selectedImages g"
  by (simp add: handleLoadMore_def Let_def split: prod.splits sum.splits)

lemma loadInitialImages_fields:
  "isAdmin (fst (loadInitialImages f (g, r))) = isAdmin g
   \<and> editingImage (fst (loadInitialImages f (g, r))) = editingImage g
   \<and> selectedImages (fst (loadInitialImages f (g, r))) = selectedImages g"
  by (simp add: loadInitialImages_def updateCategories_def Let_def split: prod.splits sum.splits)

lemma visitor_mutating_not_rendered:
  "visitor g \<Longrightarrow> mutating a \<Longrightarrow> \<not> rendered g (control_of a)"
  by (cases a) (simp_all add: visitor_def)

lemma visitor_act: "visitor g \<Longrightarrow> visitor (fst (act f a (g, r)))"
proof (cases a)
  case LoadMore
  assume "visitor g"
  with LoadMore handleLoadMore_fields [of f g r] show ?thesis
    by (simp add: act_def visitor_def)
qed (simp_all add: act_def visitor_def)


text \<open>
  C5: a caller for whom the admin check returned false causes no remote write and no local
  state change by any mutating operation. The handlers are closures of the component, called
  only from its rendered controls. A view starts as a visitor's and stays one under every
  action and under the initial load; in a visitor's view the control of every mutating
  action (reorder, metadata update, single and bulk deletion, background) is not rendered,
  so the action changes neither the view nor the remote state, its call log included. In
  particular reorder, and selection toggling, test \<open>isAdmin\<close> themselves: a non-admin
  \<^verbatim>\<open>handleDragEnd\<close> returns with no remote call and the state unchanged, whatever the drop.
\<close>

theorem C5_non_admin_is_gated:
  "(\<not> isAdmin g \<longrightarrow> handleDragEnd f src dst (g, r) = Some (g, r))
   \<and> (\<not> isAdmin g \<longrightarrow> toggleImageSelection i g = g)
   \<and> visitor initial_gallery
   \<and> (visitor g \<longrightarrow> visitor (fst (act f a (g, r))) \<and> visitor (fst (loadInitialImages f (g, r))))
   \<and> (visitor g \<and> mutating a \<longrightarrow> \<not> rendered g (control_of a) \<and> act f a (g, r) = (g, r))"
proof -
  have 1: "\<not> isAdmin g \<longrightarrow> handleDragEnd f src dst (g, r) = Some (g, r)"
    by (simp add: handleDragEnd_def split: option.splits)
  have 2: "\<not> isAdmin g \<longrightarrow> toggleImageSelection i g = g"
    by (simp add: toggleImageSelection_def)
  have 3: "visitor initial_gallery" by (simp add: visitor_def initial_gallery_def)
  have 4: "visitor g \<longrightarrow> visitor (fst (act f a (g, r))) \<and> visitor (fst (loadInitialImages f (g, r)))"
    using visitor_act [of g f a r] loadInitialImages_fields [of f g r]
    by (simp add: visitor_def)
  have 5: "visitor g \<and> mutating a \<longrightarrow> \<not> rendered g (control_of a) \<and> act f a (g, r) = (g, r)"
    using visitor_mutating_not_rendered [of g a] by (simp add: act_def)
  show ?thesis by (intro conjI 1 2 3 4 5)
qed

theorem C5_witness:
  "act no_fault (Delete True (js ''a''))
       (mk_gallery False [mk_image ''a'' ''1'' None], mk_remote [mk_image ''a'' ''1'' None])
     = (mk_gallery False [mk_image ''a'' ''1'' None], mk_remote [mk_image ''a'' ''1'' None])
   \<and> handleDragEnd no_fault 0 (Some 0)
       (mk_gallery False [mk_image ''a'' ''1'' None], mk_remote [mk_image ''a'' ''1'' None])
     = Some (mk_gallery False [mk_image ''a'' ''1'' None], mk_remote [mk_image ''a'' ''1'' None])
   \<and> visitor (mk_gallery False [mk_image ''a'' ''1'' None])"
proof -
  let ?g = "mk_gallery False [mk_image ''a'' ''1'' None]" and ?r = "mk_remote [mk_image ''a'' ''1'' None]"
  have v: "visitor ?g" by (simp add: visitor_def mk_gallery_def initial_gallery_def)
  then have n: "\<not> isAdmin ?g" by (simp add: visitor_def)
  have m: "mutating (Delete True (js ''a''))" by simp
  note t = C5_non_admin_is_gated [where f=no_fault and g="?g" and r="?r" and src=0 and dst="Some 0"
      and a="Delete True (js ''a'')"]
  from t n have a: "handleDragEnd no_fault 0 (Some 0) (?g, ?r) = Some (?g, ?r)" by blast
  from t v m have b: "act no_fault (Delete True (js ''a'')) (?g, ?r) = (?g, ?r)" by blast
  from a b v show ?thesis by simp
qed

section \<open>Fetch failures\<close>

lemma loadInitialImages_failure:
  assumes "getPaginatedImages f PAGE_SIZE None (selectedCategory g) r = (Inl e, r')"
  shows "loadInitialImages f (g, r) =
           (g\<lparr>console := console g @ [''Error loading images:''],
              error := Some ''Failed to load images. Please try again later.'',
              loading := False\<rparr>, r')"
  using assms by (simp add: loadInitialImages_def Let_def)

lemma handleLoadMore_failure:
  assumes "getPaginatedImages f PAGE_SIZE (lastVisible g) (selectedCategory g) r = (Inl e, r')"
    and "hasMore g" and "\<not> loadingMore g"
  shows "handleLoadMore f (g, r) = (g\<lparr>console := console g @ [''Error loading more images:'']\<rparr>, r')"
  using assms by (simp add: handleLoadMore_def Let_def)

lemma getPaginatedImages_rejected:
  assumes "db_ok r" and "0 < n" and "f r (GetDocs (query_constraints n c k))"
  shows "getPaginatedImages f n c k r =
           (Inl FetchFailed, r\<lparr>calls := calls r @ [GetDocs (query_constraints n c k)]\<rparr>)"
  using assms by (simp add: getPaginatedImages_def perform_def Let_def)

text \<open>
  C7 at a failing load-more: two records are loaded, the cursor is the second one and more
  pages are announced; the gateway rejects the next page. The records, the cursor and
  \<open>hasMore\<close> are kept, but nothing is reported: \<open>error\<close> stays \<^verbatim>\<open>null\<close> and no alert is
  shown, the failure only goes to \<^verbatim>\<open>console.error\<close>. The initial load, on the same state
  and failure, does set \<open>error\<close> (and keeps the records and the cursor).
\<close>

theorem C7_load_more_failure_is_only_logged:
  "handleLoadMore (fail_on (GetDocs (query_constraints PAGE_SIZE (Some (mk_image ''b'' ''2'' None)) None)))
      ((mk_gallery False [mk_image ''a'' ''3'' None, mk_image ''b'' ''2'' None])
          \<lparr>lastVisible := Some (mk_image ''b'' ''2'' None)\<rparr>,
       mk_remote [mk_image ''a'' ''3'' None, mk_image ''b'' ''2'' None, mk_image ''c'' ''1'' None])
    = ((mk_gallery False [mk_image ''a'' ''3'' None, mk_image ''b'' ''2'' None])
          \<lparr>lastVisible := Some (mk_image ''b'' ''2'' None), console := [''Error loading more images:'']\<rparr>,
       (mk_remote [mk_image ''a'' ''3'' None, mk_image ''b'' ''2'' None, mk_image ''c'' ''1'' None])
          \<lparr>calls := [GetDocs (query_constraints PAGE_SIZE (Some (mk_image ''b'' ''2'' None)) None)]\<rparr>)
   \<and> error ((mk_gallery False [mk_image ''a'' ''3'' None, mk_image ''b'' ''2'' None])
          \<lparr>lastVisible := Some (mk_image ''b'' ''2'' None), console := [''Error loading more images:'']\<rparr>) = None
   \<and> alerts ((mk_gallery False [mk_image ''a'' ''3'' None, mk_image ''b'' ''2'' None])
          \<lparr>lastVisible := Some (mk_image ''b'' ''2'' None), console := [''Error loading more images:'']\<rparr>) = []
   \<and> loadInitialImages (fail_on (GetDocs (query_constraints PAGE_SIZE None None)))
      ((mk_gallery False [mk_image ''a'' ''3'' None, mk_image ''b'' ''2'' None])
          \<lparr>lastVisible := Some (mk_image ''b'' ''2'' None)\<rparr>,
       mk_remote [mk_image ''a'' ''3'' None, mk_image ''b'' ''2'' None, mk_image ''c'' ''1'' None])
    = ((mk_gallery False [mk_image ''a'' ''3'' None, mk_image ''b'' ''2'' None])
          \<lparr>lastVisible := Some (mk_image ''b'' ''2'' None), console := [''Error loading images:''],
           error := Some ''Failed to load images. Please try again later.''\<rparr>,
       (mk_remote [mk_image ''a'' ''3'' None, mk_image ''b'' ''2'' None, mk_image ''c'' ''1'' None])
          \<lparr>calls := [GetDocs (query_constraints PAGE_SIZE None None)]\<rparr>)"
proof -
  let ?b = "mk_image ''b'' ''2'' None"
  let ?g = "(mk_gallery False [mk_image ''a'' ''3'' None, ?b])\<lparr>lastVisible := Some ?b\<rparr>"
  let ?r = "mk_remote [mk_image ''a'' ''3'' None, ?b, mk_image ''c'' ''1'' None]"
  have g: "hasMore ?g" "\<not> loadingMore ?g" "lastVisible ?g = Some ?b" "selectedCategory ?g = None"
    "console ?g = []"
    by (simp_all add: mk_gallery_def initial_gallery_def)
  have r: "db_ok ?r" "calls ?r = []" by (simp_all add: mk_remote_def)
  let ?q = "GetDocs (query_constraints PAGE_SIZE (Some ?b) None)"
  have "getPaginatedImages (fail_on ?q) PAGE_SIZE (lastVisible ?g) (selectedCategory ?g) ?r =
           (Inl FetchFailed, ?r\<lparr>calls := calls ?r @ [?q]\<rparr>)"
    unfolding g
    by (rule getPaginatedImages_rejected [OF r(1)]) (simp_all add: fail_on_def PAGE_SIZE_def)
  from handleLoadMore_failure [OF this g(1,2)]
  have 1: "handleLoadMore (fail_on ?q) (?g, ?r) =
      (?g\<lparr>console := [''Error loading more images:'']\<rparr>, ?r\<lparr>calls := [?q]\<rparr>)"
    by (simp add: g r)
  have 2: "error (?g\<lparr>console := [''Error loading more images:'']\<rparr>) = None"
    by (simp add: mk_gallery_def initial_gallery_def)
  have 3: "alerts (?g\<lparr>console := [''Error loading more images:'']\<rparr>) = []"
    by (simp add: mk_gallery_def initial_gallery_def)
  let ?q0 = "GetDocs (query_constraints PAGE_SIZE None None)"
  have "getPaginatedImages (fail_on ?q0) PAGE_SIZE None (selectedCategory ?g) ?r =
           (Inl FetchFailed, ?r\<lparr>calls := calls ?r @ [?q0]\<rparr>)"
    unfolding g
    by (rule getPaginatedImages_rejected [OF r(1)]) (simp_all add: fail_on_def PAGE_SIZE_def)
  from loadInitialImages_failure [OF this]
  have 4: "loadInitialImages (fail_on ?q0) (?g, ?r) =
      (?g\<lparr>console := [''Error loading images:''],
          error := Some ''Failed to load images. Please try again later.''\<rparr>, ?r\<lparr>calls := [?q0]\<rparr>)"
    by (simp add: g r) (simp add: mk_gallery_def initial_gallery_def)
  show ?thesis by (intro conjI 1 2 3 4)
qed

theorem C7_witness:
  "error (fst (handleLoadMore
      (fail_on (GetDocs (query_constraints PAGE_SIZE (Some (mk_image ''b'' ''2'' None)) None)))
      ((mk_gallery False [mk_image ''a'' ''3'' None, mk_image ''b'' ''2'' None])
          \<lparr>lastVisible := Some (mk_image ''b'' ''2'' None)\<rparr>,
       mk_remote [mk_image ''a'' ''3'' None, mk_image ''b'' ''2'' None, mk_image ''c'' ''1'' None]))) = None"
  using C7_load_more_failure_is_only_logged by simp

section \<open>Ordering of a page\<close>









































end
